theory Spec2Isabelle
  imports Complex_Main "HOL-Library.Word"
begin


section \<open>Host values\<close>

text \<open>
  A JavaScript string is a sequence of UTF-16 code units; \<open>s.length\<close> counts them.
  Numbers that the program computes with (accuracies, weights) are modelled as exact
  rationals, counters and timestamps as naturals.  The host's \<open>String.prototype.toLowerCase\<close>
  is not code of the repository: every function that calls it takes it as the parameter
  \<open>lc\<close>.
\<close>

type_synonym jsstring = "nat list"

text \<open>\<open>Array.prototype.slice(start)\<close> with one integer argument: a negative start counts
  from the end, and both directions are cut off at the ends of the array.  The argument
  \<open>-0\<close> is the integer 0.\<close>

definition slice_from :: "int \<Rightarrow> 'a list \<Rightarrow> 'a list" where
  "slice_from start xs =
     (let len = int (length xs);
          k = (if start < 0 then max (len + start) 0 else min start len)
      in drop (nat k) xs)"

text \<open>\<open>String.prototype.includes(k)\<close>: \<open>k\<close> occurs as a contiguous run of code units.\<close>

fun starts_with :: "jsstring \<Rightarrow> jsstring \<Rightarrow> bool" where
  "starts_with s [] = True"
| "starts_with [] (k # ks) = False"
| "starts_with (c # cs) (k # ks) = (c = k \<and> starts_with cs ks)"

fun js_includes :: "jsstring \<Rightarrow> jsstring \<Rightarrow> bool" where
  "js_includes [] k = starts_with [] k"
| "js_includes (c # cs) k = (starts_with (c # cs) k \<or> js_includes cs k)"

text \<open>\<open>x || 0\<close> on an optional number: \<open>undefined\<close> and \<open>0\<close> are falsy.\<close>

definition or0 :: "rat option \<Rightarrow> rat" where
  "or0 x = (case x of None \<Rightarrow> 0 | Some v \<Rightarrow> if v = 0 then 0 else v)"

section \<open>The dataset builder (learning/dataset-builder.js)\<close>

datatype topic = Programming | Science | Learning | Creative | Technical | General

datatype sentiment = Positive | Neutral | Negative

record conv_metadata =
  message_length :: nat
  response_length :: nat
  topic :: topic
  sentiment :: sentiment

record conversation =
  timestamp :: nat
  user_message :: jsstring
  ai_response :: jsstring
  conv_context :: jsstring
  metadata :: conv_metadata

record performance =
  accuracy :: "rat option"
  speed :: "rat option"
  consistency :: "rat option"
  focusTime :: "rat option"

record learning_metrics =
  lm_accuracy :: rat
  lm_speed :: rat
  lm_consistency :: rat
  improvement_rate :: rat
  attention_span :: rat

record gameSession =
  game_timestamp :: nat
  game_type :: jsstring
  game_performance :: performance
  decisions :: "jsstring list"
  outcome :: jsstring
  learning_metrics :: learning_metrics

record trainingExample =
  input :: jsstring
  ex_output :: jsstring
  ex_context :: jsstring
  weight :: rat

record DatasetBuilder =
  conversations :: "conversation list"
  gameData :: "gameSession list"
  userPreferences :: "(jsstring \<times> jsstring) list"
  learningSessions :: "jsstring list"
  maxStorage :: nat

definition constructor :: DatasetBuilder where
  "constructor =
     \<lparr>conversations = [], gameData = [], userPreferences = [], learningSessions = [],
      maxStorage = 50 * 1024 * 1024\<rparr>"

subsection \<open>Topic and sentiment\<close>

text \<open>The keyword tables, as UTF-16 code units, in the order of the object literal.\<close>

definition topics :: "(topic \<times> jsstring list) list" where
  "topics =
    [(Programming,
       [[1082, 1086, 1076],
        [1087, 1088, 1086, 1075, 1088, 1072, 1084, 1084, 1080, 1088],
        [1072, 1083, 1075, 1086, 1088, 1080, 1090, 1084],
        [112, 121, 116, 104, 111, 110],
        [106, 97, 118, 97, 115, 99, 114, 105, 112, 116],
        [1092, 1091, 1085, 1082, 1094, 1080, 1103],
        [1087, 1077, 1088, 1077, 1084, 1077, 1085, 1085]]),
     (Science,
       [[1085, 1072, 1091, 1082],
        [1092, 1080, 1079, 1080, 1082],
        [1093, 1080, 1084, 1080],
        [1073, 1080, 1086, 1083, 1086, 1075],
        [1084, 1072, 1090, 1077, 1084, 1072, 1090],
        [1090, 1077, 1086, 1088, 1080, 1103]]),
     (Learning,
       [[1086, 1073, 1091, 1095],
        [1080, 1079, 1091, 1095],
        [1082, 1091, 1088, 1089],
        [1091, 1095, 1077, 1073],
        [1079, 1072, 1085, 1103, 1090, 1080]]),
     (Creative,
       [[1080, 1076, 1077, 1103],
        [1087, 1088, 1080, 1076, 1091, 1084, 1072, 1081],
        [1089, 1086, 1079, 1076, 1072, 1081],
        [1082, 1088, 1077, 1072, 1090, 1080, 1074],
        [1090, 1074, 1086, 1088, 1095, 1077, 1089, 1090, 1074]]),
     (Technical,
       [[1090, 1077, 1093, 1085, 1080, 1082],
        [1082, 1086, 1084, 1087, 1100, 1102, 1090, 1077, 1088],
        [1090, 1077, 1083, 1077, 1092, 1086, 1085],
        [1087, 1088, 1080, 1083, 1086, 1078, 1077, 1085, 1080],
        [1085, 1072, 1089, 1090, 1088, 1086, 1081, 1082]])]"

text \<open>The \<open>for ... of Object.entries(topics)\<close> loop: the first entry one of whose keywords
  occurs in the lowercased message is returned.\<close>

fun first_topic :: "jsstring \<Rightarrow> (topic \<times> jsstring list) list \<Rightarrow> topic" where
  "first_topic lowerMessage [] = General"
| "first_topic lowerMessage ((t, keywords) # rest) =
     (if list_ex (\<lambda>keyword. js_includes lowerMessage keyword) keywords then t
      else first_topic lowerMessage rest)"

definition analyzeTopic :: "(jsstring \<Rightarrow> jsstring) \<Rightarrow> jsstring \<Rightarrow> topic" where
  "analyzeTopic lc message = first_topic (lc message) topics"

definition positiveWords :: "jsstring list" where
  "positiveWords =
     [[1093, 1086, 1088, 1086, 1096],
      [1086, 1090, 1083, 1080, 1095, 1085],
      [1087, 1088, 1077, 1082, 1088, 1072, 1089, 1085],
      [1079, 1072, 1084, 1077, 1095, 1072, 1090, 1077, 1083, 1100, 1085],
      [1089, 1087, 1072, 1089, 1080, 1073],
      [1087, 1086, 1085, 1088, 1072, 1074],
      [1083, 1102, 1073]]"

definition negativeWords :: "jsstring list" where
  "negativeWords =
     [[1087, 1083, 1086, 1093],
      [1091, 1078, 1072, 1089, 1085],
      [1086, 1090, 1074, 1088, 1072, 1090, 1080, 1090, 1077, 1083, 1100, 1085],
      [1085, 1077, 1085, 1072, 1074, 1080, 1078],
      [1075, 1088, 1091, 1089, 1090, 1085],
      [1079, 1083],
      [1088, 1072, 1079, 1086, 1095, 1072, 1088, 1086, 1074, 1072, 1085]]"

definition analyzeSentiment :: "(jsstring \<Rightarrow> jsstring) \<Rightarrow> jsstring \<Rightarrow> sentiment" where
  "analyzeSentiment lc message =
     (let lowerMessage = lc message;
          score = (0::int);
          score = fold (\<lambda>word s. if js_includes lowerMessage word then s + 1 else s)
                    positiveWords score;
          score = fold (\<lambda>word s. if js_includes lowerMessage word then s - 1 else s)
                    negativeWords score
      in if score > 0 then Positive else if score < 0 then Negative else Neutral)"

subsection \<open>Learning metrics of a game session\<close>

text \<open>\<open>calculateImprovementRate\<close> reads the sessions stored so far; its argument
  \<open>performance\<close> is unused, as in the source.\<close>

definition calculateImprovementRate :: "DatasetBuilder \<Rightarrow> performance \<Rightarrow> rat" where
  "calculateImprovementRate this perf =
     (let recentSessions = slice_from (- 5) (gameData this)
      in if length recentSessions < 2 then 0
         else
           let improvements =
                 map (\<lambda>session. or0 (Some (lm_accuracy (learning_metrics session))))
                   recentSessions;
               totalImprovement =
                 improvements ! (length improvements - 1) - improvements ! 0
           in totalImprovement / of_nat (length improvements - 1))"

definition calculateAttentionSpan :: "performance \<Rightarrow> rat" where
  "calculateAttentionSpan perf = min 100 (or0 (focusTime perf) / 60 * 100)"

definition calculateLearningMetrics :: "DatasetBuilder \<Rightarrow> performance \<Rightarrow> learning_metrics" where
  "calculateLearningMetrics this perf =
     \<lparr>lm_accuracy = or0 (accuracy perf),
      lm_speed = or0 (speed perf),
      lm_consistency = or0 (consistency perf),
      improvement_rate = calculateImprovementRate this perf,
      attention_span = calculateAttentionSpan perf\<rparr>"

subsection \<open>Eviction\<close>

text \<open>\<open>Math.floor(length * 0.8)\<close> is taken in exact arithmetic; for the length of an array
  (below \<open>2^32\<close>) the product in double precision has the same floor.  The keep-count
  is negated and passed to \<open>slice\<close>.\<close>

definition cleanupOldData :: "DatasetBuilder \<Rightarrow> DatasetBuilder" where
  "cleanupOldData this =
     (let conversationsToKeep = \<lfloor>(of_nat (length (conversations this)) :: rat) * (8 / 10)\<rfloor>;
          gamesToKeep = \<lfloor>(of_nat (length (gameData this)) :: rat) * (8 / 10)\<rfloor>
      in this\<lparr>conversations := slice_from (- conversationsToKeep) (conversations this),
              gameData := slice_from (- gamesToKeep) (gameData this)\<rparr>)"

subsection \<open>The size estimate\<close>

text \<open>
  \<open>getTotalDataSize\<close> is the UTF-8 byte length of
  \<open>JSON.stringify({conversations, gameData})\<close>.  A conversation holds strings and
  non-negative integers only, so its serialisation is written out here: the keys and
  punctuation are ASCII, an integer below \<open>10^21\<close> is its decimal digits, and a string is
  quoted with the escapes of \<open>JSON.stringify\<close> and then encoded as UTF-8.  A game
  session holds arbitrary numbers, whose printing is the host's: the byte length of one
  serialised session is the parameter \<open>sessionBytes\<close>.
\<close>

fun digits :: "nat \<Rightarrow> nat" where
  "digits n = (if n < 10 then 1 else Suc (digits (n div 10)))"

declare digits.simps [simp del]

definition is_high_surrogate :: "nat \<Rightarrow> bool" where
  "is_high_surrogate c = (55296 \<le> c \<and> c \<le> 56319)"

definition is_low_surrogate :: "nat \<Rightarrow> bool" where
  "is_low_surrogate c = (56320 \<le> c \<and> c \<le> 57343)"

text \<open>Bytes of one code unit that is not the first half of a surrogate pair: the double
  quote, the backslash and the five short control escapes take two bytes, the other control
  characters and a lone surrogate are written as \<open>u\<close> escapes of six bytes, the rest is
  UTF-8.\<close>

definition unit_bytes :: "nat \<Rightarrow> nat" where
  "unit_bytes c =
     (if c = 34 \<or> c = 92 then 2
      else if c = 8 \<or> c = 9 \<or> c = 10 \<or> c = 12 \<or> c = 13 then 2
      else if c < 32 then 6
      else if c < 128 then 1
      else if c < 2048 then 2
      else if is_high_surrogate c \<or> is_low_surrogate c then 6
      else 3)"

fun content_bytes :: "jsstring \<Rightarrow> nat" where
  "content_bytes [] = 0"
| "content_bytes [c] = unit_bytes c"
| "content_bytes (c # d # cs) =
     (if is_high_surrogate c \<and> is_low_surrogate d then 4 + content_bytes cs
      else unit_bytes c + content_bytes (d # cs))"

definition string_bytes :: "jsstring \<Rightarrow> nat" where
  "string_bytes s = 2 + content_bytes s"

definition topic_name :: "topic \<Rightarrow> jsstring" where
  "topic_name t =
     (case t of
        Programming \<Rightarrow> [112, 114, 111, 103, 114, 97, 109, 109, 105, 110, 103]
      | Science \<Rightarrow> [115, 99, 105, 101, 110, 99, 101]
      | Learning \<Rightarrow> [108, 101, 97, 114, 110, 105, 110, 103]
      | Creative \<Rightarrow> [99, 114, 101, 97, 116, 105, 118, 101]
      | Technical \<Rightarrow> [116, 101, 99, 104, 110, 105, 99, 97, 108]
      | General \<Rightarrow> [103, 101, 110, 101, 114, 97, 108])"

definition sentiment_name :: "sentiment \<Rightarrow> jsstring" where
  "sentiment_name s =
     (case s of
        Positive \<Rightarrow> [112, 111, 115, 105, 116, 105, 118, 101]
      | Neutral \<Rightarrow> [110, 101, 117, 116, 114, 97, 108]
      | Negative \<Rightarrow> [110, 101, 103, 97, 116, 105, 118, 101])"

text \<open>The constants are the lengths of the key fragments \<open>{"timestamp":\<close> (13),
  \<open>,"user_message":\<close> (16), \<open>,"ai_response":\<close> (15), \<open>,"context":\<close> (11),
  \<open>,"metadata":{"message_length":\<close> (30), \<open>,"response_length":\<close> (19),
  \<open>,"topic":\<close> (9), \<open>,"sentiment":\<close> (13) and \<open>}}\<close> (2).\<close>

definition conversation_bytes :: "conversation \<Rightarrow> nat" where
  "conversation_bytes c =
     13 + digits (timestamp c)
     + 16 + string_bytes (user_message c)
     + 15 + string_bytes (ai_response c)
     + 11 + string_bytes (conv_context c)
     + 30 + digits (message_length (metadata c))
     + 19 + digits (response_length (metadata c))
     + 9 + string_bytes (topic_name (topic (metadata c)))
     + 13 + string_bytes (sentiment_name (sentiment (metadata c)))
     + 2"

text \<open>An array is \<open>[\<close>, its elements separated by commas, \<open>]\<close>.\<close>

definition array_bytes :: "('a \<Rightarrow> nat) \<Rightarrow> 'a list \<Rightarrow> nat" where
  "array_bytes f xs = 2 + sum_list (map f xs) + (length xs - 1)"

text \<open>\<open>{"conversations":\<close> is 17 bytes, \<open>,"gameData":\<close> is 12 and \<open>}\<close> is one.\<close>

definition getTotalDataSize :: "(gameSession \<Rightarrow> nat) \<Rightarrow> DatasetBuilder \<Rightarrow> nat" where
  "getTotalDataSize sessionBytes this =
     17 + array_bytes conversation_bytes (conversations this)
     + 12 + array_bytes sessionBytes (gameData this)
     + 1"

definition checkStorageLimit :: "(gameSession \<Rightarrow> nat) \<Rightarrow> DatasetBuilder \<Rightarrow> DatasetBuilder" where
  "checkStorageLimit sessionBytes this =
     (let totalSize = getTotalDataSize sessionBytes this
      in if totalSize > maxStorage this then cleanupOldData this else this)"

subsection \<open>Recording\<close>

text \<open>\<open>Date.now()\<close> is the argument \<open>now\<close>.\<close>

definition new_conversation ::
  "(jsstring \<Rightarrow> jsstring) \<Rightarrow> nat \<Rightarrow> jsstring \<Rightarrow> jsstring \<Rightarrow> jsstring \<Rightarrow> conversation" where
  "new_conversation lc now userMessage aiResponse ctx =
     \<lparr>timestamp = now,
      user_message = userMessage,
      ai_response = aiResponse,
      conv_context = ctx,
      metadata =
        \<lparr>message_length = length userMessage,
         response_length = length aiResponse,
         topic = analyzeTopic lc userMessage,
         sentiment = analyzeSentiment lc userMessage\<rparr>\<rparr>"

definition recordConversation ::
  "(jsstring \<Rightarrow> jsstring) \<Rightarrow> (gameSession \<Rightarrow> nat) \<Rightarrow> nat \<Rightarrow> jsstring \<Rightarrow> jsstring \<Rightarrow> jsstring
     \<Rightarrow> DatasetBuilder \<Rightarrow> DatasetBuilder" where
  "recordConversation lc sessionBytes now userMessage aiResponse ctx this =
     (let conversation = new_conversation lc now userMessage aiResponse ctx;
          this = this\<lparr>conversations := conversations this @ [conversation]\<rparr>
      in checkStorageLimit sessionBytes this)"

definition new_gameSession ::
  "DatasetBuilder \<Rightarrow> nat \<Rightarrow> jsstring \<Rightarrow> performance \<Rightarrow> jsstring list \<Rightarrow> jsstring \<Rightarrow> gameSession" where
  "new_gameSession this now gameType perf decs outc =
     \<lparr>game_timestamp = now,
      game_type = gameType,
      game_performance = perf,
      decisions = decs,
      outcome = outc,
      learning_metrics = calculateLearningMetrics this perf\<rparr>"

definition recordGameData ::
  "(gameSession \<Rightarrow> nat) \<Rightarrow> nat \<Rightarrow> jsstring \<Rightarrow> performance \<Rightarrow> jsstring list \<Rightarrow> jsstring
     \<Rightarrow> DatasetBuilder \<Rightarrow> DatasetBuilder" where
  "recordGameData sessionBytes now gameType perf decs outc this =
     (let gameSession = new_gameSession this now gameType perf decs outc;
          this = this\<lparr>gameData := gameData this @ [gameSession]\<rparr>
      in checkStorageLimit sessionBytes this)"

subsection \<open>Training data\<close>

definition calculateExampleWeight :: "conversation \<Rightarrow> rat" where
  "calculateExampleWeight conversation =
     (let weight = 1;
          weight = (if message_length (metadata conversation) > 50 then weight * (12 / 10)
                    else weight);
          weight = (if topic (metadata conversation) \<in> set [Programming, Science, Technical]
                    then weight * (15 / 10) else weight);
          weight = (if sentiment (metadata conversation) = Negative then weight * (7 / 10)
                    else weight)
      in min weight 2)"

text \<open>The template literals, with the host's printing of a number as the parameter
  \<open>numberToString\<close>.  The fixed pieces are the Russian texts of the source in code units.\<close>

definition generateGameLearningOutput :: "(rat \<Rightarrow> jsstring) \<Rightarrow> gameSession \<Rightarrow> jsstring" where
  "generateGameLearningOutput numberToString gameSession =
     (let metrics = learning_metrics gameSession
      in [1053, 1072, 32, 1086, 1089, 1085, 1086, 1074, 1077, 32, 1080, 1075, 1088, 1099, 32, 34]
         @ game_type gameSession
         @ [34, 32, 1103, 32, 1091, 1083, 1091, 1095, 1096, 1080, 1083, 58, 32,
            1090, 1086, 1095, 1085, 1086, 1089, 1090, 1100, 32]
         @ numberToString (lm_accuracy metrics)
         @ [37, 44, 32, 1089, 1082, 1086, 1088, 1086, 1089, 1090, 1100, 32]
         @ numberToString (lm_speed metrics)
         @ [37, 44, 32, 1082, 1086, 1085, 1094, 1077, 1085, 1090, 1088, 1072, 1094, 1080, 1103, 32]
         @ numberToString (attention_span metrics)
         @ [37])"

definition conversation_example :: "conversation \<Rightarrow> trainingExample" where
  "conversation_example conv =
     \<lparr>input = user_message conv,
      ex_output = ai_response conv,
      ex_context = conv_context conv,
      weight = calculateExampleWeight conv\<rparr>"

definition game_example :: "(rat \<Rightarrow> jsstring) \<Rightarrow> gameSession \<Rightarrow> trainingExample" where
  "game_example numberToString game =
     \<lparr>input = [1048, 1075, 1088, 1072, 58, 32] @ game_type game
              @ [46, 32, 1056, 1077, 1079, 1091, 1083, 1100, 1090, 1072, 1090, 58, 32]
              @ outcome game,
      ex_output = generateGameLearningOutput numberToString game,
      ex_context = [103, 97, 109, 101, 95, 108, 101, 97, 114, 110, 105, 110, 103],
      weight = lm_accuracy (learning_metrics game)\<rparr>"

definition prepareTrainingData :: "(rat \<Rightarrow> jsstring) \<Rightarrow> DatasetBuilder \<Rightarrow> trainingExample list" where
  "prepareTrainingData numberToString this =
     (let trainingExamples = [];
          trainingExamples = fold (\<lambda>conv acc. acc @ [conversation_example conv])
                               (conversations this) trainingExamples;
          trainingExamples = fold (\<lambda>game acc. acc @ [game_example numberToString game])
                               (gameData this) trainingExamples
      in trainingExamples)"

subsection \<open>Export and import\<close>








section \<open>The inference engine (class OllamaWebEngine)\<close>

text \<open>
  The WebAssembly instance is foreign code.  What the engine can observe of it is the
  answer of each export it calls, and what can be observed of the engine from outside is
  the sequence of calls it makes.  So the instance is modelled by its call history
  (\<open>fcall list\<close>, each call with its answer; the field \<open>wasm_instance\<close>, which is
  \<open>this.instance\<close> of the source, is \<open>None\<close> until \<open>initialize\<close> has stored an
  instance), and the answers that the runtime gives during one
  engine operation are the record \<open>foreign\<close> passed to that operation.  An answer \<open>None\<close> is
  a call that throws (a trap, or an export that is missing).
\<close>

type_synonym ptr = nat
type_synonym bytes = "8 word list"

datatype fcall =
    AllocateMemory nat "ptr option"
  | LoadModel ptr nat nat "int option"
  | GenerateResponse ptr nat nat rat rat "ptr option"
  | TrainModel ptr nat nat "int option"
  | GetModelSize "nat option"
  | ExportModel "ptr option"
  | FreeMemory ptr "unit option"

record foreign =
  allocate_memory :: "nat \<Rightarrow> ptr option"
  load_model :: "ptr \<Rightarrow> nat \<Rightarrow> nat \<Rightarrow> int option"
  generate_response :: "ptr \<Rightarrow> nat \<Rightarrow> nat \<Rightarrow> rat \<Rightarrow> rat \<Rightarrow> ptr option"
  train_model :: "ptr \<Rightarrow> nat \<Rightarrow> nat \<Rightarrow> int option"
  get_model_size :: "nat option"
  export_model :: "ptr option"
  free_memory :: "ptr \<Rightarrow> unit option"
  memory :: bytes

text \<open>The host functions that the engine calls: \<open>TextEncoder.encode\<close>,
  \<open>TextDecoder.decode\<close>, \<open>JSON.stringify\<close> on the training data, whether the IndexedDB
  request of \<open>_saveToIndexedDB\<close> succeeds, and how loading the WebAssembly module ends.\<close>

datatype wasm_load = NoStreaming | InstantiateFails | Instantiated

record host =
  encode :: "jsstring \<Rightarrow> bytes"
  decode :: "bytes \<Rightarrow> jsstring"
  stringify_examples :: "trainingExample list \<Rightarrow> jsstring"
  idb_put :: "jsstring \<Rightarrow> bytes \<Rightarrow> bool"
  wasm :: wasm_load

text \<open>
  The errors, named after what the source throws: \<open>NotInitialized\<close> is
  \<open>Error('Dvizhok ne inicializirovan')\<close>, \<open>ModelNotLoaded\<close> is \<open>Error('Model ne zagruzhena')\<close>
  (the guard of \<open>generateResponse\<close>, \<open>trainOnData\<close> and \<open>saveModel\<close>; the specification
  calls it EngineNotReady), \<open>ModelLoadFailed\<close> and \<open>TrainingFailed\<close> carry the status code
  that the message of the source embeds, \<open>GenerationFailed\<close> is thrown on a null result
  pointer.  \<open>RangeError\<close> is a write beyond the linear memory, \<open>TypeError\<close> the use of a
  missing instance, \<open>ForeignTrap\<close> a foreign call that throws, \<open>StorageError\<close> a rejected
  IndexedDB request.
\<close>

datatype engine_error =
    NotInitialized
  | ModelNotLoaded
  | ModelLoadFailed int
  | GenerationFailed
  | TrainingFailed int
  | RangeError
  | TypeError
  | ForeignTrap
  | StorageError

text \<open>A call returns a value, throws, or does not return.\<close>

datatype 'a outcome = Returns 'a | Throws engine_error | Hangs

record model_info =
  loaded :: bool
  model_bytes :: nat

record engine =
  isInitialized :: bool
  isRunning :: bool
  currentModel :: "jsstring option"
  models :: "jsstring \<rightharpoonup> model_info"
  memoryLimit :: nat
  wasm_instance :: "fcall list option"

definition new_engine :: engine where
  "new_engine =
     \<lparr>isInitialized = False, isRunning = False, currentModel = None, models = Map.empty,
      memoryLimit = 512 * 1024 * 1024, wasm_instance = None\<rparr>"

type_synonym 'a em = "engine \<Rightarrow> 'a outcome \<times> engine"

definition bind_em :: "'a em \<Rightarrow> ('a \<Rightarrow> 'b em) \<Rightarrow> 'b em" where
  "bind_em m k this =
     (case m this of
        (Returns v, this') \<Rightarrow> k v this'
      | (Throws e, this') \<Rightarrow> (Throws e, this')
      | (Hangs, this') \<Rightarrow> (Hangs, this'))"

definition return_em :: "'a \<Rightarrow> 'a em" where
  "return_em v this = (Returns v, this)"

definition throw_em :: "engine_error \<Rightarrow> 'a em" where
  "throw_em e this = (Throws e, this)"

text \<open>\<open>try { ... } catch (error) { console.error(...); return false; }\<close>\<close>

definition catch_return_false :: "bool em \<Rightarrow> bool em" where
  "catch_return_false m this =
     (case m this of
        (Throws e, this') \<Rightarrow> (Returns False, this')
      | r \<Rightarrow> r)"

text \<open>\<open>try { ... } catch (error) { console.error(...); throw error; }\<close>\<close>

definition catch_rethrow :: "'a em \<Rightarrow> 'a em" where
  "catch_rethrow m this =
     (case m this of
        (Throws e, this') \<Rightarrow> (Throws e, this')
      | r \<Rightarrow> r)"

text \<open>A call of an export of \<open>this.instance\<close>: it is entered in the history of the instance
  with its answer.  Without an instance, \<open>this.instance.exports\<close> throws a TypeError.\<close>

definition foreign_call :: "fcall \<Rightarrow> 'a option \<Rightarrow> 'a em" where
  "foreign_call c answer this =
     (case wasm_instance this of
        None \<Rightarrow> (Throws TypeError, this)
      | Some history \<Rightarrow>
          (case answer of
             None \<Rightarrow> (Throws ForeignTrap, this\<lparr>wasm_instance := Some (history @ [c])\<rparr>)
           | Some v \<Rightarrow> (Returns v, this\<lparr>wasm_instance := Some (history @ [c])\<rparr>)))"

definition allocateMemory :: "foreign \<Rightarrow> nat \<Rightarrow> ptr em" where
  "allocateMemory f n = foreign_call (AllocateMemory n (allocate_memory f n)) (allocate_memory f n)"

definition freeMemory :: "foreign \<Rightarrow> ptr \<Rightarrow> unit em" where
  "freeMemory f p = foreign_call (FreeMemory p (free_memory f p)) (free_memory f p)"

text \<open>\<open>new Uint8Array(this.instance.exports.memory.buffer).set(buffer, p)\<close>: a RangeError
  when the buffer does not fit at offset \<open>p\<close>.  The bytes written are read by the foreign
  code only, so the write itself is not kept.\<close>

definition memory_set :: "foreign \<Rightarrow> bytes \<Rightarrow> ptr \<Rightarrow> unit em" where
  "memory_set f buffer p this =
     (case wasm_instance this of
        None \<Rightarrow> (Throws TypeError, this)
      | Some history \<Rightarrow>
          if p + length buffer \<le> length (memory f) then (Returns (), this)
          else (Throws RangeError, this))"

text \<open>\<open>!this.currentModel\<close>: \<open>null\<close> and the empty string are falsy.\<close>

definition falsy :: "jsstring option \<Rightarrow> bool" where
  "falsy x = (case x of None \<Rightarrow> True | Some s \<Rightarrow> s = [])"

subsection \<open>initialize\<close>

definition initialize :: "host \<Rightarrow> bool em" where
  "initialize h this =
     (case wasm h of
        NoStreaming \<Rightarrow> (Returns False, this)
      | InstantiateFails \<Rightarrow> (Returns False, this)
      | Instantiated \<Rightarrow> (Returns True, this\<lparr>wasm_instance := Some [], isInitialized := True\<rparr>))"

subsection \<open>loadModel\<close>

definition loadModel_try :: "foreign \<Rightarrow> jsstring \<Rightarrow> bytes \<Rightarrow> bool em" where
  "loadModel_try f modelName modelBuffer =
     bind_em (allocateMemory f (length modelBuffer)) (\<lambda>modelPtr.
     bind_em (memory_set f modelBuffer modelPtr) (\<lambda>_.
     bind_em (\<lambda>this.
        foreign_call
          (LoadModel modelPtr (length modelBuffer) (memoryLimit this)
             (load_model f modelPtr (length modelBuffer) (memoryLimit this)))
          (load_model f modelPtr (length modelBuffer) (memoryLimit this)) this) (\<lambda>result.
     if result = 0 then
       (\<lambda>this. (Returns True,
           this\<lparr>currentModel := Some modelName,
                 models := (models this)(modelName \<mapsto>
                             \<lparr>loaded = True, model_bytes = length modelBuffer\<rparr>)\<rparr>))
     else throw_em (ModelLoadFailed result))))"

definition loadModel :: "foreign \<Rightarrow> jsstring \<Rightarrow> bytes \<Rightarrow> bool em" where
  "loadModel f modelName modelData this =
     (if \<not> isInitialized this then (Throws NotInitialized, this)
      else catch_return_false (loadModel_try f modelName modelData) this)"

subsection \<open>generateResponse\<close>

text \<open>The loop of \<open>_readStringFromMemory\<close>: \<open>while (memory[ptr + length] !== 0) length++\<close>.
  A read beyond the memory gives \<open>undefined\<close>, which is not 0, so the loop goes on; when
  no zero byte follows \<open>ptr\<close> it never ends, which is the value \<open>None\<close>.\<close>

partial_function (option) find_terminator :: "bytes \<Rightarrow> ptr \<Rightarrow> nat \<Rightarrow> nat option" where
  "find_terminator mem p len =
     (if p + len < length mem \<and> mem ! (p + len) = 0 then Some len
      else find_terminator mem p (len + 1))"

definition readStringFromMemory :: "host \<Rightarrow> foreign \<Rightarrow> ptr \<Rightarrow> jsstring em" where
  "readStringFromMemory h f p this =
     (case find_terminator (memory f) p 0 of
        None \<Rightarrow> (Hangs, this)
      | Some len \<Rightarrow> (Returns (decode h (take len (drop p (memory f)))), this))"

record gen_options =
  maxTokens :: "nat option"
  temperature :: "rat option"
  topP :: "rat option"

definition default_to :: "'a \<Rightarrow> 'a option \<Rightarrow> 'a" where
  "default_to d x = (case x of None \<Rightarrow> d | Some v \<Rightarrow> v)"

definition generateResponse_try :: "host \<Rightarrow> foreign \<Rightarrow> jsstring \<Rightarrow> gen_options \<Rightarrow> jsstring em" where
  "generateResponse_try h f prompt options =
     (let maxTokens = default_to 500 (maxTokens options);
          temperature = default_to (7 / 10) (temperature options);
          topP = default_to (9 / 10) (topP options);
          promptBuffer = encode h prompt
      in
       bind_em (allocateMemory f (length promptBuffer)) (\<lambda>promptPtr.
       bind_em (memory_set f promptBuffer promptPtr) (\<lambda>_.
       bind_em (foreign_call
                  (GenerateResponse promptPtr (length promptBuffer) maxTokens temperature topP
                     (generate_response f promptPtr (length promptBuffer) maxTokens
                        temperature topP))
                  (generate_response f promptPtr (length promptBuffer) maxTokens
                     temperature topP)) (\<lambda>responsePtr.
       if responsePtr = 0 then throw_em GenerationFailed
       else
         bind_em (readStringFromMemory h f responsePtr) (\<lambda>response.
         bind_em (freeMemory f responsePtr) (\<lambda>_.
         bind_em (freeMemory f promptPtr) (\<lambda>_.
         return_em response)))))))"

definition generateResponse :: "host \<Rightarrow> foreign \<Rightarrow> jsstring \<Rightarrow> gen_options \<Rightarrow> jsstring em" where
  "generateResponse h f prompt options this =
     (if falsy (currentModel this) then (Throws ModelNotLoaded, this)
      else catch_rethrow (generateResponse_try h f prompt options) this)"

subsection \<open>trainOnData\<close>



subsection \<open>saveModel\<close>

definition saveToIndexedDB :: "host \<Rightarrow> jsstring \<Rightarrow> bytes \<Rightarrow> unit em" where
  "saveToIndexedDB h key data this =
     (if idb_put h key data then (Returns (), this) else (Throws StorageError, this))"



subsection \<open>Foreign buffers and the state of the engine\<close>

text \<open>
  The buffers that the instance has handed out and that have not been released: a
  buffer is obtained by \<open>allocate_memory\<close>, or as the non-null result of
  \<open>generate_response\<close> or \<open>export_model\<close> (the source releases both with
  \<open>free_memory\<close>), and it is released by a call of \<open>free_memory\<close>.
\<close>

fun outstanding :: "fcall list \<Rightarrow> ptr list \<Rightarrow> ptr list" where
  "outstanding [] held = held"
| "outstanding (AllocateMemory n (Some p) # cs) held = outstanding cs (held @ [p])"
| "outstanding (GenerateResponse a b c d e (Some p) # cs) held =
     outstanding cs (if p = 0 then held else held @ [p])"
| "outstanding (ExportModel (Some p) # cs) held =
     outstanding cs (if p = 0 then held else held @ [p])"
| "outstanding (FreeMemory p r # cs) held = outstanding cs (remove1 p held)"
| "outstanding (c # cs) held = outstanding cs held"

definition leaked :: "engine \<Rightarrow> ptr list" where
  "leaked this = (case wasm_instance this of None \<Rightarrow> [] | Some history \<Rightarrow> outstanding history [])"





datatype result = RBool bool | RText jsstring

definition map_outcome :: "('a \<Rightarrow> 'b) \<Rightarrow> 'a outcome \<times> engine \<Rightarrow> 'b outcome \<times> engine" where
  "map_outcome g r =
     (case r of
        (Returns v, this) \<Rightarrow> (Returns (g v), this)
      | (Throws e, this) \<Rightarrow> (Throws e, this)
      | (Hangs, this) \<Rightarrow> (Hangs, this))"



section \<open>The quantities of the specification, and sample inputs\<close>

text \<open>The keep-count of an eviction as section 4.4 of the specification words it: 80 per cent of
  the number of records, rounded down.\<close>

definition keep_count :: "nat \<Rightarrow> nat" where
  "keep_count n = nat \<lfloor>(of_nat n :: rat) * (8 / 10)\<rfloor>"

text \<open>The weight of a conversation as section 4.3 words it: start at 1, multiply by 1.2 for a
  message longer than 50, by 1.5 for one of three topics, by 0.7 for a negative sentiment,
  and clamp to the interval from 0 to 2.\<close>

definition spec_weight :: "nat \<Rightarrow> topic \<Rightarrow> sentiment \<Rightarrow> rat" where
  "spec_weight len t s =
     max 0 (min 2
       (1 * (if len > 50 then 12 / 10 else 1)
          * (if t \<in> {Programming, Science, Technical} then 15 / 10 else 1)
          * (if s = Negative then 7 / 10 else 1)))"

text \<open>The improvement rate as section 4.3 words it, from the accuracies of the session records
  stored before, oldest first: the slope between the first and the last of the five most
  recent ones, and 0 when there are fewer than two.\<close>

definition spec_improvementRate :: "rat list \<Rightarrow> rat" where
  "spec_improvementRate prior =
     (let recent = drop (length prior - 5) prior
      in if length recent < 2 then 0
         else (last recent - hd recent) / of_nat (length recent - 1))"

text \<open>A lowercasing that agrees with \<open>toLowerCase\<close> on the Latin and the Cyrillic capital
  letters and leaves every other code unit as it is; the sample inputs use it.\<close>

definition lower_unit :: "nat \<Rightarrow> nat" where
  "lower_unit c =
     (if 65 \<le> c \<and> c \<le> 90 then c + 32
      else if 1040 \<le> c \<and> c \<le> 1071 then c + 32
      else if 1024 \<le> c \<and> c \<le> 1039 then c + 80
      else c)"

definition lower_basic :: "jsstring \<Rightarrow> jsstring" where
  "lower_basic s = map lower_unit s"

text \<open>A message of 60 code units about a slow computer (\<open>Pochemu moj komp'yuter tak medlenno
  rabotaet pri zapuske igr??\<close>).\<close>

definition technical_message :: jsstring where
  "technical_message =
     [1055, 1086, 1095, 1077, 1084, 1091, 32, 1084, 1086, 1081, 32, 1082, 1086, 1084, 1087,
      1100, 1102, 1090, 1077, 1088, 32, 1090, 1072, 1082, 32, 1084, 1077, 1076, 1083, 1077,
      1085, 1085, 1086, 32, 1088, 1072, 1073, 1086, 1090, 1072, 1077, 1090, 32, 1087, 1088,
      1080, 32, 1079, 1072, 1087, 1091, 1089, 1082, 1077, 32, 1080, 1075, 1088, 63, 63]"

text \<open>The greeting \<open>Privet\<close>, and a conversation record holding it.\<close>

definition greeting :: jsstring where
  "greeting = [1055, 1088, 1080, 1074, 1077, 1090]"

definition greeting_record :: "nat \<Rightarrow> conversation" where
  "greeting_record now = new_conversation lower_basic now greeting greeting []"

definition performance_of :: "rat \<Rightarrow> performance" where
  "performance_of a = \<lparr>accuracy = Some a, speed = None, consistency = None, focusTime = None\<rparr>"

text \<open>A session serialiser for the samples: every session takes 200 bytes.\<close>

definition flat_sessionBytes :: "gameSession \<Rightarrow> nat" where
  "flat_sessionBytes g = 200"

text \<open>Five sessions with the accuracies 10, 20, 30, 40 and 50, recorded one after the other
  in a new store.\<close>

definition five_sessions :: DatasetBuilder where
  "five_sessions =
     recordGameData flat_sessionBytes 5 [113] (performance_of 50) [] []
       (recordGameData flat_sessionBytes 4 [113] (performance_of 40) [] []
         (recordGameData flat_sessionBytes 3 [113] (performance_of 30) [] []
           (recordGameData flat_sessionBytes 2 [113] (performance_of 20) [] []
             (recordGameData flat_sessionBytes 1 [113] (performance_of 10) [] [] constructor))))"

text \<open>The decimal digits of a natural number, and a number printer for the samples: it
  prints a non-negative integer as its digits (the numbers of the samples are such) and
  anything else as the empty string.\<close>

fun decimal :: "nat \<Rightarrow> jsstring" where
  "decimal n = (if n < 10 then [48 + n] else decimal (n div 10) @ [48 + n mod 10])"

declare decimal.simps [simp del]

definition integer_toString :: "rat \<Rightarrow> jsstring" where
  "integer_toString q = (if 0 \<le> q \<and> q = of_int \<lfloor>q\<rfloor> then decimal (nat \<lfloor>q\<rfloor>) else [])"

text \<open>The five sessions, and then one conversation with the message about the computer.\<close>

definition mixed_store :: DatasetBuilder where
  "mixed_store =
     recordConversation lower_basic flat_sessionBytes 7 technical_message greeting [] five_sessions"








section \<open>Sample hosts, runtimes and engines\<close>

text \<open>A host whose encoder and decoder agree with \<open>TextEncoder\<close> and \<open>TextDecoder\<close> on
  ASCII text, which is what the samples use; it serialises the empty batch, as \<open>[]\<close>; its
  IndexedDB requests succeed and its WebAssembly module loads.\<close>

definition ascii_encode :: "jsstring \<Rightarrow> bytes" where
  "ascii_encode s = map of_nat s"

definition ascii_decode :: "bytes \<Rightarrow> jsstring" where
  "ascii_decode b = map unat b"

definition empty_batch_text :: "trainingExample list \<Rightarrow> jsstring" where
  "empty_batch_text xs = [91, 93]"

definition idb_accepts :: "jsstring \<Rightarrow> bytes \<Rightarrow> bool" where
  "idb_accepts key data = True"

definition sample_host :: host where
  "sample_host =
     \<lparr>encode = ascii_encode, decode = ascii_decode, stringify_examples = empty_batch_text,
      idb_put = idb_accepts, wasm = Instantiated\<rparr>"

text \<open>A linear memory of 64 bytes that holds the text \<open>Hi\<close> and its terminator at offset
  32.\<close>

definition sample_memory :: bytes where
  "sample_memory = replicate 32 0 @ [72, 105, 0] @ replicate 29 0"

text \<open>A runtime in which every call succeeds: a buffer of four bytes is allocated at offset
  16 and any other buffer at offset 48, results are at offset 32, every status is 0.\<close>

definition runtime_ok :: foreign where
  "runtime_ok =
     \<lparr>allocate_memory = (\<lambda>n. Some (if n = 4 then 16 else 48)),
      load_model = (\<lambda>p n limit. Some 0),
      generate_response = (\<lambda>p n maxTokens temperature topP. Some 32),
      train_model = (\<lambda>p n epochs. Some 0),
      get_model_size = Some 3,
      export_model = Some 32,
      free_memory = (\<lambda>p. Some ()),
      memory = sample_memory\<rparr>"

text \<open>The same runtime with a generation that returns the null pointer, with a load that
  reports the status 3, and with a training that reports the status 5.\<close>

definition runtime_null_result :: foreign where
  "runtime_null_result =
     runtime_ok\<lparr>generate_response := (\<lambda>p n maxTokens temperature topP. Some 0)\<rparr>"

definition runtime_status3 :: foreign where
  "runtime_status3 = runtime_ok\<lparr>load_model := (\<lambda>p n limit. Some 3)\<rparr>"


text \<open>The model names \<open>tiny-llama\<close> and \<open>other\<close>, a model of four bytes, the prompt \<open>Hi\<close>
  and the options \<open>{}\<close>.\<close>

definition tiny_llama :: jsstring where
  "tiny_llama = [116, 105, 110, 121, 45, 108, 108, 97, 109, 97]"

definition other_name :: jsstring where
  "other_name = [111, 116, 104, 101, 114]"

definition model_blob :: bytes where
  "model_blob = [1, 2, 3, 4]"

definition hi_prompt :: jsstring where
  "hi_prompt = [72, 105]"

definition no_options :: gen_options where
  "no_options = \<lparr>maxTokens = None, temperature = None, topP = None\<rparr>"

text \<open>The engine after \<open>initialize\<close>, and after \<open>loadModel('tiny-llama', ...)\<close> on it.\<close>

definition ready_engine :: engine where
  "ready_engine = snd (initialize sample_host new_engine)"

definition loaded_engine :: engine where
  "loaded_engine = snd (loadModel runtime_ok tiny_llama model_blob ready_engine)"



section \<open>Notions for reasoning about the engine\<close>

text \<open>Two engines agree when they have the same flags, current model, registry and
  memory limit, and both have an instance or both have none.  An operation keeps the
  engine when its final state agrees with its initial one; it is blind when on agreeing
  states it has the same outcome and ends in agreeing states.  An engine is well formed
  when a current model implies that it is initialised.\<close>

definition agree :: "engine \<Rightarrow> engine \<Rightarrow> bool" where
  "agree e e' =
     (isInitialized e = isInitialized e' \<and> currentModel e = currentModel e'
      \<and> models e = models e' \<and> memoryLimit e = memoryLimit e'
      \<and> (wasm_instance e = None \<longleftrightarrow> wasm_instance e' = None))"


definition blind :: "'a em \<Rightarrow> bool" where
  "blind m = (\<forall>e e'. agree e e' \<longrightarrow> fst (m e) = fst (m e') \<and> agree (snd (m e)) (snd (m e')))"



section \<open>Properties of the dataset builder\<close>

subsection \<open>Slices and eviction\<close>

lemma slice_from_neg: "slice_from (- int k) xs = (if k = 0 then xs else drop (length xs - k) xs)"
  by (auto simp: slice_from_def Let_def max_def nat_diff_distrib' intro: arg_cong)

lemma slice_from_5: "slice_from (- 5) xs = drop (length xs - 5) xs"
  using slice_from_neg [of 5 xs] by simp

lemma floor_keep: "\<lfloor>(of_nat n :: rat) * (8 / 10)\<rfloor> = int ((4 * n) div 5)"
proof -
  have "(of_nat n :: rat) * (8 / 10) = of_int (int (4 * n)) / of_int 5" by simp
  then have "\<lfloor>(of_nat n :: rat) * (8 / 10)\<rfloor> = int (4 * n) div 5"
    by (simp only: floor_divide_of_int_eq)
  then show ?thesis by (simp add: zdiv_int)
qed

lemma keep_count_div: "keep_count n = (4 * n) div 5"
  by (simp only: keep_count_def floor_keep nat_int)

lemma conversations_cleanup:
  "conversations (cleanupOldData this) =
     slice_from (- int (keep_count (length (conversations this)))) (conversations this)"
  by (simp add: cleanupOldData_def Let_def keep_count_def floor_keep)

lemma gameData_cleanup:
  "gameData (cleanupOldData this) =
     slice_from (- int (keep_count (length (gameData this)))) (gameData this)"
  by (simp add: cleanupOldData_def Let_def keep_count_def floor_keep)

lemma slice_keep:
  assumes "length xs \<noteq> 1"
  shows "slice_from (- int (keep_count (length xs))) xs = drop (length xs - keep_count (length xs)) xs"
    and "length (slice_from (- int (keep_count (length xs))) xs) = keep_count (length xs)"
proof -
  have "4 * length xs div 5 = 0 \<longrightarrow> length xs = 0" using assms by presburger
  then have "keep_count (length xs) = 0 \<longrightarrow> xs = []" by (simp add: keep_count_div)
  then show "slice_from (- int (keep_count (length xs))) xs =
      drop (length xs - keep_count (length xs)) xs"
    and "length (slice_from (- int (keep_count (length xs))) xs) = keep_count (length xs)"
    by (auto simp: slice_from_neg keep_count_div)
qed

text \<open>The record appended last survives the eviction, whatever the keep-count is.\<close>

lemma last_slice_snoc: "last (slice_from (- int k) (xs @ [x])) = x"
  by (simp add: slice_from_neg)

lemma gameData_check_last:
  "gameData this = xs @ [x] \<Longrightarrow> last (gameData (checkStorageLimit sb this)) = x"
  by (simp add: checkStorageLimit_def Let_def gameData_cleanup last_slice_snoc)


lemma last_recordGameData:
  "last (gameData (recordGameData sb now gt perf decs outc this)) =
     new_gameSession this now gt perf decs outc"
  by (simp add: recordGameData_def Let_def gameData_check_last)


subsection \<open>The improvement rate\<close>

lemma slope_nth:
  "ys \<noteq> [] \<Longrightarrow> (ys ! (length ys - 1) - ys ! 0 :: rat) = last ys - hd ys"
  by (simp add: last_conv_nth hd_conv_nth)

lemma improvement_spec:
  "calculateImprovementRate this perf =
     spec_improvementRate (map (\<lambda>s. lm_accuracy (learning_metrics s)) (gameData this))"
proof -
  let ?xs = "gameData this"
  let ?f = "\<lambda>s. lm_accuracy (learning_metrics s)"
  define ys where "ys = map ?f (drop (length ?xs - 5) ?xs)"
  have or: "(\<lambda>session. or0 (Some (?f session))) = ?f"
    by (simp add: or0_def fun_eq_iff)
  have A: "calculateImprovementRate this perf =
             (if length ys < 2 then 0
              else (ys ! (length ys - 1) - ys ! 0) / of_nat (length ys - 1))"
    unfolding calculateImprovementRate_def slice_from_5 Let_def or ys_def by simp
  have B: "spec_improvementRate (map ?f ?xs) =
             (if length ys < 2 then 0 else (last ys - hd ys) / of_nat (length ys - 1))"
    unfolding spec_improvementRate_def Let_def ys_def by (simp add: drop_map)
  show ?thesis
  proof (cases "length ys < 2")
    case True
    then show ?thesis unfolding A B by simp
  next
    case False
    then have "ys \<noteq> []" by auto
    then have "ys ! (length ys - 1) - ys ! 0 = last ys - hd ys" by (rule slope_nth)
    then show ?thesis unfolding A B by (simp only:)
  qed
qed

lemma gameData_five_sessions:
  "map (\<lambda>g. lm_accuracy (learning_metrics g)) (gameData five_sessions) = [10, 20, 30, 40, 50]"
  by (simp add: five_sessions_def recordGameData_def checkStorageLimit_def getTotalDataSize_def
      array_bytes_def flat_sessionBytes_def constructor_def new_gameSession_def Let_def
      calculateLearningMetrics_def performance_of_def or0_def)

lemma length_five_sessions: "length (gameData five_sessions) = 5"
  using arg_cong [OF gameData_five_sessions, of length] by simp

subsection \<open>Training examples\<close>

lemma fold_snoc: "fold (\<lambda>x acc. acc @ [f x]) xs acc = acc @ map f xs"
  by (induction xs arbitrary: acc) simp_all

lemma prepareTrainingData_eq:
  "prepareTrainingData ns this =
     map conversation_example (conversations this) @ map (game_example ns) (gameData this)"
  by (simp add: prepareTrainingData_def Let_def fold_snoc)

lemma weight_spec:
  "calculateExampleWeight c =
     spec_weight (message_length (metadata c)) (topic (metadata c)) (sentiment (metadata c))"
  by (simp add: calculateExampleWeight_def spec_weight_def Let_def)

lemma weight_bounds: "7 / 10 \<le> calculateExampleWeight c \<and> calculateExampleWeight c \<le> 2"
  by (simp add: calculateExampleWeight_def Let_def)

lemma conversation_weight_range:
  "0 \<le> weight (conversation_example c) \<and> weight (conversation_example c) \<le> 2"
  using weight_bounds [of c] by (simp add: conversation_example_def)


subsection \<open>The sample stores\<close>

lemma topic_technical_message: "analyzeTopic lower_basic technical_message = Technical"
  by (simp add: analyzeTopic_def lower_basic_def technical_message_def lower_unit_def topics_def)

lemma sentiment_technical_message: "analyzeSentiment lower_basic technical_message = Neutral"
  by (simp add: analyzeSentiment_def lower_basic_def technical_message_def lower_unit_def
      positiveWords_def negativeWords_def Let_def)

lemma five_sessions_parts:
  "conversations five_sessions = []" "maxStorage five_sessions = 52428800"
  by (simp_all add: five_sessions_def recordGameData_def checkStorageLimit_def getTotalDataSize_def
      array_bytes_def flat_sessionBytes_def constructor_def new_gameSession_def Let_def)

lemma sum_flat: "sum_list (map flat_sessionBytes xs) = 200 * length xs"
  by (induction xs) (simp_all add: flat_sessionBytes_def)

lemma mixed_store_eq:
  "mixed_store =
     five_sessions\<lparr>conversations := [new_conversation lower_basic 7 technical_message greeting []]\<rparr>"
proof -
  have "conversation_bytes (new_conversation lower_basic 7 technical_message greeting []) \<le> 1000"
    apply (simp add: conversation_bytes_def new_conversation_def topic_technical_message
        sentiment_technical_message topic_name_def sentiment_name_def)
    apply (simp add: string_bytes_def technical_message_def greeting_def
        digits.simps unit_bytes_def is_high_surrogate_def is_low_surrogate_def)
    done
  then show ?thesis
    by (simp add: mixed_store_def recordConversation_def checkStorageLimit_def Let_def
        getTotalDataSize_def array_bytes_def five_sessions_parts length_five_sessions
        sum_flat)
qed

lemma conversations_mixed_store:
  "conversations mixed_store = [new_conversation lower_basic 7 technical_message greeting []]"
  by (simp add: mixed_store_eq)

lemma gameData_mixed_store: "gameData mixed_store = gameData five_sessions"
  by (simp add: mixed_store_eq)


subsection \<open>The size estimate\<close>





















section \<open>Properties of the engine\<close>

lemmas em_defs = bind_em_def return_em_def throw_em_def catch_return_false_def catch_rethrow_def
  foreign_call_def allocateMemory_def freeMemory_def memory_set_def

lemma agree_refl: "agree e e" by (simp add: agree_def)
lemma agree_sym: "agree a b \<Longrightarrow> agree b a" by (simp add: agree_def)


lemma blind_bind:
  assumes "blind m" and "\<And>v. blind (k v)"
  shows "blind (bind_em m k)"
  unfolding blind_def
proof (intro allI impI)
  fix e e'
  assume a: "agree e e'"
  obtain r e1 where me: "m e = (r, e1)" by (cases "m e")
  obtain r' e1' where me': "m e' = (r', e1')" by (cases "m e'")
  have rr: "r = r'" and a1: "agree e1 e1'"
    using assms(1) a me me' unfolding blind_def by (metis fst_conv, metis snd_conv)
  show "fst (bind_em m k e) = fst (bind_em m k e') \<and>
        agree (snd (bind_em m k e)) (snd (bind_em m k e'))"
  proof (cases r)
    case (Returns v)
    have "fst (k v e1) = fst (k v e1') \<and> agree (snd (k v e1)) (snd (k v e1'))"
      using assms(2) a1 unfolding blind_def by blast
    then show ?thesis using me me' rr Returns by (auto simp: bind_em_def)
  next
    case (Throws x)
    then show ?thesis using me me' rr a1 by (auto simp: bind_em_def)
  next
    case Hangs
    then show ?thesis using me me' rr a1 by (auto simp: bind_em_def)
  qed
qed


lemma blind_prims:
  "blind (foreign_call c a)" "blind (allocateMemory f n)" "blind (freeMemory f p)"
  "blind (memory_set f b p)" "blind (return_em v)" "blind (throw_em x)"
  "blind (readStringFromMemory h f p)" "blind (saveToIndexedDB h key d)"
  by (auto simp: blind_def agree_def em_defs readStringFromMemory_def saveToIndexedDB_def
      split: option.splits)





lemma blind_generate_try: "blind (generateResponse_try h f prompt options)"
  unfolding generateResponse_try_def Let_def
  by (intro blind_bind blind_prims) (simp add: blind_prims blind_bind)






lemma catch_rethrow_id: "catch_rethrow m = m"
  by (auto simp: fun_eq_iff catch_rethrow_def split: prod.splits outcome.splits)

lemma blind_generateResponse: "blind (generateResponse h f prompt options)"
  unfolding blind_def
proof (intro allI impI)
  fix e e'
  assume a: "agree e e'"
  then have c: "currentModel e = currentModel e'" by (simp add: agree_def)
  show "fst (generateResponse h f prompt options e) = fst (generateResponse h f prompt options e')
        \<and> agree (snd (generateResponse h f prompt options e))
             (snd (generateResponse h f prompt options e'))"
  proof (cases "falsy (currentModel e)")
    case True
    then show ?thesis using a c by (simp add: generateResponse_def)
  next
    case False
    then show ?thesis
      using a c blind_generate_try [of h f prompt options]
      by (simp add: generateResponse_def catch_rethrow_id blind_def)
  qed
qed

lemma loadModel_try_cases:
  "(fst (loadModel_try f n d e) = Returns True
      \<and> snd (loadModel_try f n d e) =
          (snd (loadModel_try f n d e))\<lparr>currentModel := Some n,
             models := (models e)(n \<mapsto> \<lparr>loaded = True, model_bytes = length d\<rparr>)\<rparr>
      \<and> isInitialized (snd (loadModel_try f n d e)) = isInitialized e)
   \<or> ((\<exists>x. fst (loadModel_try f n d e) = Throws x) \<and> agree e (snd (loadModel_try f n d e)))"
  by (auto simp: loadModel_try_def em_defs agree_def split: option.splits)




lemma loadModel_cases:
  "(fst (loadModel f n d e) = Returns True \<and> isInitialized e
      \<and> isInitialized (snd (loadModel f n d e))
      \<and> currentModel (snd (loadModel f n d e)) = Some n
      \<and> models (snd (loadModel f n d e)) =
          (models e)(n \<mapsto> \<lparr>loaded = True, model_bytes = length d\<rparr>))
   \<or> (fst (loadModel f n d e) = Returns False \<and> isInitialized e \<and> agree e (snd (loadModel f n d e)))
   \<or> (fst (loadModel f n d e) = Throws NotInitialized \<and> \<not> isInitialized e
      \<and> snd (loadModel f n d e) = e)"
proof (cases "isInitialized e")
  case False
  then show ?thesis by (simp add: loadModel_def)
next
  case True
  obtain r e1 where t: "loadModel_try f n d e = (r, e1)" by (cases "loadModel_try f n d e")
  from loadModel_try_cases [of f n d e] show ?thesis
  proof
    assume a: "fst (loadModel_try f n d e) = Returns True
      \<and> snd (loadModel_try f n d e) =
          (snd (loadModel_try f n d e))\<lparr>currentModel := Some n,
             models := (models e)(n \<mapsto> \<lparr>loaded = True, model_bytes = length d\<rparr>)\<rparr>
      \<and> isInitialized (snd (loadModel_try f n d e)) = isInitialized e"
    then have r: "r = Returns True" using t by simp
    have "currentModel e1 = Some n
          \<and> models e1 = (models e)(n \<mapsto> \<lparr>loaded = True, model_bytes = length d\<rparr>)
          \<and> isInitialized e1"
      using a t True by (metis engine.select_convs(3,4) engine.surjective engine.update_convs(3,4) snd_conv)
    then show ?thesis using True t r by (simp add: loadModel_def catch_return_false_def)
  next
    assume a: "(\<exists>x. fst (loadModel_try f n d e) = Throws x) \<and> agree e (snd (loadModel_try f n d e))"
    then obtain x where "r = Throws x" using t by auto
    then show ?thesis using True t a by (simp add: loadModel_def catch_return_false_def)
  qed
qed


lemma snd_map_outcome [simp]: "snd (map_outcome g r) = snd r"
  by (auto simp: map_outcome_def split: prod.splits outcome.splits)

lemma fst_map_outcome_RBool [simp]:
  "fst (map_outcome RBool r) = Returns (RBool b) \<longleftrightarrow> fst r = Returns b"
  by (auto simp: map_outcome_def split: prod.splits outcome.splits)













text \<open>The guard of \<open>generateResponse\<close> tests whether \<open>currentModel\<close> is truthy: after a
  load under the empty name has succeeded, a generation still throws the error of the
  missing model.\<close>

lemma generate_after_empty_name:
  assumes "fst (loadModel f [] d e) = Returns True"
  shows "generateResponse h g p opts (snd (loadModel f [] d e)) =
           (Throws ModelNotLoaded, snd (loadModel f [] d e))"
  using loadModel_cases [of f "[]" d e] assms
  by (auto simp: generateResponse_def falsy_def)

subsection \<open>The sample runs\<close>

lemma ready_engine_eq:
  "ready_engine = new_engine\<lparr>wasm_instance := Some [], isInitialized := True\<rparr>"
  by (simp add: ready_engine_def initialize_def sample_host_def)

lemma loaded_engine_eq:
  "loaded_engine =
     new_engine\<lparr>wasm_instance := Some [AllocateMemory 4 (Some 16), LoadModel 16 4 536870912 (Some 0)],
       isInitialized := True, currentModel := Some tiny_llama,
       models := [tiny_llama \<mapsto> \<lparr>loaded = True, model_bytes = 4\<rparr>]\<rparr>"
  by (simp add: loaded_engine_def ready_engine_eq loadModel_def loadModel_try_def em_defs
      runtime_ok_def model_blob_def sample_memory_def new_engine_def)
     (simp add: eval_nat_numeral)



lemma find_terminator_sample: "find_terminator sample_memory 32 0 = Some 2"
  apply (subst find_terminator.simps, simp add: sample_memory_def nth_append)
  apply (subst find_terminator.simps, simp add: sample_memory_def nth_append)
  apply (subst find_terminator.simps, simp add: sample_memory_def nth_append)
  done

lemma generate_sample:
  "generateResponse sample_host runtime_ok hi_prompt no_options loaded_engine =
     (Returns hi_prompt,
      loaded_engine\<lparr>wasm_instance :=
        Some [AllocateMemory 4 (Some 16), LoadModel 16 4 536870912 (Some 0),
              AllocateMemory 2 (Some 48), GenerateResponse 48 2 500 (7 / 10) (9 / 10) (Some 32),
              FreeMemory 32 (Some ()), FreeMemory 48 (Some ())]\<rparr>)"
  by (simp add: generateResponse_def generateResponse_try_def em_defs loaded_engine_eq
      runtime_ok_def sample_host_def ascii_encode_def ascii_decode_def hi_prompt_def no_options_def
      default_to_def falsy_def tiny_llama_def new_engine_def Let_def readStringFromMemory_def
      find_terminator_sample) (simp add: sample_memory_def)

lemma generate_null_sample:
  "generateResponse sample_host runtime_null_result hi_prompt no_options loaded_engine =
     (Throws GenerationFailed,
      loaded_engine\<lparr>wasm_instance :=
        Some [AllocateMemory 4 (Some 16), LoadModel 16 4 536870912 (Some 0),
              AllocateMemory 2 (Some 48), GenerateResponse 48 2 500 (7 / 10) (9 / 10) (Some 0)]\<rparr>)"
  by (simp add: generateResponse_def generateResponse_try_def em_defs loaded_engine_eq
      runtime_ok_def runtime_null_result_def sample_host_def ascii_encode_def hi_prompt_def
      no_options_def default_to_def falsy_def tiny_llama_def new_engine_def Let_def
      sample_memory_def)

lemma load_status3_sample:
  "loadModel_try runtime_status3 other_name model_blob ready_engine =
     (Throws (ModelLoadFailed 3),
      ready_engine\<lparr>wasm_instance :=
        Some [AllocateMemory 4 (Some 16), LoadModel 16 4 536870912 (Some 3)]\<rparr>)"
  "loadModel runtime_status3 other_name model_blob ready_engine =
     (Returns False,
      ready_engine\<lparr>wasm_instance :=
        Some [AllocateMemory 4 (Some 16), LoadModel 16 4 536870912 (Some 3)]\<rparr>)"
  by (simp_all add: loadModel_def loadModel_try_def em_defs ready_engine_eq
      runtime_ok_def runtime_status3_def model_blob_def sample_memory_def new_engine_def)

lemma load_status3_loaded_sample:
  "loadModel runtime_status3 other_name model_blob loaded_engine =
     (Returns False,
      loaded_engine\<lparr>wasm_instance :=
        Some [AllocateMemory 4 (Some 16), LoadModel 16 4 536870912 (Some 0),
              AllocateMemory 4 (Some 16), LoadModel 16 4 536870912 (Some 3)]\<rparr>)"
  by (simp_all add: loadModel_def loadModel_try_def em_defs loaded_engine_eq
      runtime_ok_def runtime_status3_def model_blob_def sample_memory_def new_engine_def)

lemma leaked_samples:
  "leaked loaded_engine = [16]"
  "leaked (snd (generateResponse sample_host runtime_ok hi_prompt no_options loaded_engine)) = [16]"
  "leaked (snd (generateResponse sample_host runtime_null_result hi_prompt no_options
      loaded_engine)) = [16, 48]"
  "leaked (snd (loadModel runtime_status3 other_name model_blob ready_engine)) = [16]"
  by (simp_all add: generate_sample generate_null_sample load_status3_sample leaked_def)
     (simp_all add: loaded_engine_eq ready_engine_eq leaked_def)


subsection \<open>Failures inside the try blocks\<close>







section \<open>Claim C1: the ceiling on the estimated size\<close>







section \<open>Claim C2: foreign buffers on the error paths\<close>

text \<open>
  C2 at its failing inputs.  The engine with \<open>tiny-llama\<close> loaded is asked to generate, and
  the runtime returns the null pointer: the call throws the generation error, and the
  prompt buffer at offset 48, allocated in this call, is never released (a generation that
  succeeds releases both its buffers).  The initialised engine, which holds no buffer, is
  asked to load a model, and the runtime reports the status 3: the call returns \<open>false\<close>,
  and the model buffer at offset 16 is never released.
\<close>

theorem generateResponse_null_result_leaks:
  "fst (generateResponse sample_host runtime_null_result hi_prompt no_options loaded_engine)
     = Throws GenerationFailed
   \<and> leaked (snd (generateResponse sample_host runtime_null_result hi_prompt no_options
        loaded_engine)) = leaked loaded_engine @ [48]
   \<and> leaked (snd (generateResponse sample_host runtime_ok hi_prompt no_options loaded_engine))
     = leaked loaded_engine
   \<and> leaked ready_engine = []
   \<and> fst (loadModel runtime_status3 other_name model_blob ready_engine) = Returns False
   \<and> leaked (snd (loadModel runtime_status3 other_name model_blob ready_engine)) = [16]"
  by (simp add: leaked_samples generate_null_sample load_status3_sample)
     (simp add: leaked_def ready_engine_eq)

section \<open>Claim C3: the range of the weights\<close>

text \<open>
  C3, as the code has it.  \<open>prepareTrainingData\<close> emits the examples of the conversations
  first and those of the sessions after them.  The weight of every example that comes from
  a conversation lies between 0 and 2.  The weight of an example that comes from a session
  is the \<open>accuracy\<close> of its learning metrics, which \<open>recordGameData\<close> sets to
  \<open>performance.accuracy || 0\<close>: it is not clamped.
\<close>

theorem prepareTrainingData_weights:
  "(\<forall>e \<in> set (take (length (conversations this)) (prepareTrainingData ns this)).
      0 \<le> weight e \<and> weight e \<le> 2)
   \<and> map weight (drop (length (conversations this)) (prepareTrainingData ns this)) =
      map (\<lambda>g. lm_accuracy (learning_metrics g)) (gameData this)
   \<and> lm_accuracy (learning_metrics (new_gameSession this now gt perf decs outc)) =
      or0 (accuracy perf)"
  by (auto simp: prepareTrainingData_eq conversation_weight_range game_example_def
      new_gameSession_def calculateLearningMetrics_def)

text \<open>The theorem at the store of five sessions and one conversation: the weights of the
  training data are 1.8 for the conversation and the five accuracies for the sessions.\<close>

theorem prepareTrainingData_weights_witness:
  "map weight (prepareTrainingData integer_toString mixed_store) = [18 / 10, 10, 20, 30, 40, 50]"
proof -
  have c: "length (conversations mixed_store) = 1"
    by (simp add: conversations_mixed_store)
  have "map weight (drop 1 (prepareTrainingData integer_toString mixed_store)) =
          [10, 20, 30, 40, 50]"
    using prepareTrainingData_weights
      [of mixed_store integer_toString 0 "[]" "performance_of 0" "[]" "[]"]
    by (simp only: c gameData_mixed_store gameData_five_sessions)
  moreover have "weight (hd (prepareTrainingData integer_toString mixed_store)) = 18 / 10"
    by (simp add: prepareTrainingData_eq conversations_mixed_store conversation_example_def
        weight_spec new_conversation_def topic_technical_message sentiment_technical_message
        spec_weight_def) (simp add: technical_message_def)
  moreover have "length (prepareTrainingData integer_toString mixed_store) = 6"
    by (simp add: prepareTrainingData_eq c gameData_mixed_store length_five_sessions)
  ultimately show ?thesis
    by (cases "prepareTrainingData integer_toString mixed_store") simp_all
qed

text \<open>
  C3 as stated fails: the fifth of the five sample sessions was recorded with the accuracy
  50, and the training example made from it has the weight 50, which is above 2.
\<close>

theorem prepareTrainingData_weight_counterexample:
  "weight (last (prepareTrainingData integer_toString five_sessions)) = 50 \<and> \<not> (50 :: rat) \<le> 2"
proof -
  have ne: "gameData five_sessions \<noteq> []" using length_five_sessions by auto
  have "lm_accuracy (learning_metrics (last (gameData five_sessions))) = 50"
    using gameData_five_sessions last_map [OF ne, of "\<lambda>g. lm_accuracy (learning_metrics g)"]
    by simp
  then show ?thesis
    using ne by (simp add: prepareTrainingData_eq five_sessions_parts last_map game_example_def)
qed

section \<open>Claim C4: the states of the engine\<close>






section \<open>Claim C5: the weight of a recorded conversation\<close>



section \<open>Claim C6: what an eviction keeps\<close>

text \<open>
  C6, as the code has it.  On a collection that does not hold exactly one record,
  \<open>cleanupOldData\<close> keeps exactly the newest \<open>keep_count n\<close> records, that is 80 per cent
  of \<open>n\<close> rounded down, as the suffix of the collection, so in their insertion order; this
  holds for the conversations and for the sessions.  The number removed is therefore
  \<open>n - keep_count n\<close>, 20 per cent rounded up.  Nothing is said here about a collection of
  one record.
\<close>

theorem cleanupOldData_keeps_newest:
  "(length (conversations this) \<noteq> 1 \<longrightarrow>
      conversations (cleanupOldData this) =
        drop (length (conversations this) - keep_count (length (conversations this)))
          (conversations this)
      \<and> length (conversations (cleanupOldData this)) = keep_count (length (conversations this)))
   \<and> (length (gameData this) \<noteq> 1 \<longrightarrow>
      gameData (cleanupOldData this) =
        drop (length (gameData this) - keep_count (length (gameData this))) (gameData this)
      \<and> length (gameData (cleanupOldData this)) = keep_count (length (gameData this)))
   \<and> keep_count n = (4 * n) div 5"
  using slice_keep [of "conversations this"] slice_keep [of "gameData this"]
  by (simp add: conversations_cleanup gameData_cleanup keep_count_div)

text \<open>The theorem at a store of three conversations and five sessions: the two newest
  conversations and four sessions stay.\<close>

theorem cleanupOldData_keeps_newest_witness:
  "length (conversations
       (five_sessions\<lparr>conversations := [greeting_record 1, greeting_record 2, greeting_record 3]\<rparr>))
     \<noteq> 1
   \<and> length (gameData
       (five_sessions\<lparr>conversations := [greeting_record 1, greeting_record 2, greeting_record 3]\<rparr>))
     \<noteq> 1
   \<and> conversations (cleanupOldData
       (five_sessions\<lparr>conversations := [greeting_record 1, greeting_record 2, greeting_record 3]\<rparr>))
     = [greeting_record 2, greeting_record 3]
   \<and> length (gameData (cleanupOldData
       (five_sessions\<lparr>conversations := [greeting_record 1, greeting_record 2, greeting_record 3]\<rparr>)))
     = 4"
  using cleanupOldData_keeps_newest
    [of "five_sessions\<lparr>conversations := [greeting_record 1, greeting_record 2, greeting_record 3]\<rparr>"]
  by (simp add: length_five_sessions keep_count_div)

text \<open>
  C6 as stated fails.  On a collection of one record the keep-count is 0, and
  \<open>slice(-0)\<close> is \<open>slice(0)\<close>: the record stays, where the claim has no survivor.  On a
  collection of three records one record is removed, where 20 per cent of three rounded
  down is none.
\<close>

theorem cleanupOldData_counterexample:
  "keep_count (length (conversations (constructor\<lparr>conversations := [greeting_record 1]\<rparr>))) = 0
   \<and> conversations (cleanupOldData (constructor\<lparr>conversations := [greeting_record 1]\<rparr>))
     = [greeting_record 1]
   \<and> length (conversations (cleanupOldData
       (constructor\<lparr>conversations := [greeting_record 1, greeting_record 2, greeting_record 3]\<rparr>)))
     = 3 - 1
   \<and> nat \<lfloor>(3 :: rat) * (2 / 10)\<rfloor> = 0"
  by (simp add: conversations_cleanup keep_count_div slice_from_def)

section \<open>Claim C7: how a foreign failure reaches the caller\<close>








section \<open>Claim C8: export followed by import\<close>





section \<open>Claim C9: the improvement rate of a recorded session\<close>

text \<open>
  C9.  After \<open>recordGameData\<close> the newest stored session is the one just built, and its
  \<open>improvement_rate\<close> is the slope between the first and the last accuracy of the five
  most recent sessions that were stored before the call, and 0 when fewer than two were.
\<close>

theorem recordGameData_improvement_rate:
  "last (gameData (recordGameData sb now gt perf decs outc this)) =
     new_gameSession this now gt perf decs outc
   \<and> improvement_rate (learning_metrics (new_gameSession this now gt perf decs outc)) =
     spec_improvementRate (map (\<lambda>s. lm_accuracy (learning_metrics s)) (gameData this))"
  by (simp add: last_recordGameData new_gameSession_def calculateLearningMetrics_def
      improvement_spec)

text \<open>With the accuracies 10, 20, 30, 40, 50 stored, the next record has the rate
  \<open>(50 - 10) / 4 = 10\<close>.\<close>

theorem recordGameData_improvement_rate_witness:
  "improvement_rate (learning_metrics (last (gameData
      (recordGameData flat_sessionBytes 6 [113] (performance_of 60) [] [] five_sessions)))) = 10"
  using recordGameData_improvement_rate
    [of flat_sessionBytes 6 "[113]" "performance_of 60" "[]" "[]" five_sessions]
  by (simp add: gameData_five_sessions spec_improvementRate_def)

section \<open>Claim C10: a load that fails while a model is loaded\<close>

text \<open>
  C10.  When \<open>loadModel\<close> does not return \<open>true\<close> (the runtime reported a nonzero status,
  a call or the transfer threw, or the engine was not initialised), the current model, the
  registry of models and the initialisation flag are what they were, and any later
  \<open>generateResponse\<close> has the same outcome as it would have had without the failed load.
\<close>

theorem loadModel_failure_keeps_model:
  assumes "fst (loadModel f newName blob this) \<noteq> Returns True"
  shows "currentModel (snd (loadModel f newName blob this)) = currentModel this
   \<and> models (snd (loadModel f newName blob this)) = models this
   \<and> isInitialized (snd (loadModel f newName blob this)) = isInitialized this
   \<and> fst (generateResponse h g prompt options (snd (loadModel f newName blob this)))
       = fst (generateResponse h g prompt options this)"
proof -
  have a: "agree this (snd (loadModel f newName blob this))"
    using loadModel_cases [of f newName blob this] assms by (auto simp: agree_refl)
  then have "fst (generateResponse h g prompt options this)
       = fst (generateResponse h g prompt options (snd (loadModel f newName blob this)))"
    using blind_generateResponse [of h g prompt options] unfolding blind_def by blast
  then show ?thesis using a by (simp add: agree_def)
qed

text \<open>The theorem at the engine with \<open>tiny-llama\<close> loaded, and a load of \<open>other\<close> that the
  runtime answers with the status 3: \<open>tiny-llama\<close> stays current, \<open>other\<close> is not
  registered, and a generation afterwards returns its text.\<close>

theorem loadModel_failure_keeps_model_witness:
  "fst (loadModel runtime_status3 other_name model_blob loaded_engine) = Returns False
   \<and> currentModel (snd (loadModel runtime_status3 other_name model_blob loaded_engine))
       = Some tiny_llama
   \<and> models (snd (loadModel runtime_status3 other_name model_blob loaded_engine)) other_name
       = None
   \<and> fst (generateResponse sample_host runtime_ok hi_prompt no_options
        (snd (loadModel runtime_status3 other_name model_blob loaded_engine)))
       = Returns hi_prompt"
proof -
  have f: "fst (loadModel runtime_status3 other_name model_blob loaded_engine) \<noteq> Returns True"
    by (simp add: load_status3_loaded_sample)
  have n: "models loaded_engine other_name = None"
    by (simp add: loaded_engine_eq new_engine_def other_name_def tiny_llama_def)
  have c: "currentModel loaded_engine = Some tiny_llama"
    by (simp add: loaded_engine_eq)
  show ?thesis
    using loadModel_failure_keeps_model [OF f, of sample_host runtime_ok hi_prompt no_options] n c
    by (simp add: generate_sample) (simp add: load_status3_loaded_sample)
qed

end
